theory Spec2Isabelle
  imports Complex_Main "HOL-Library.Sublist" "HOL-Library.Code_Target_Nat"
begin

section \<open>Strings and the interface language\<close>

text \<open>
  A JavaScript string is the list of its UTF-16 code units, each a natural number:
  \<open>length\<close>, \<open>split\<close>, \<open>substring\<close>, \<open>trim\<close> and the regular expressions of the
  source all work on code units. \<open>js\<close> gives the string of an ASCII literal. The
  user notices of the source are a datatype, their texts are not spelled out.
\<close>

type_synonym jsstring = "nat list"

definition js :: "string \<Rightarrow> jsstring" where
  "js s = map of_char s"

datatype lang = EN | AR

datatype error = TransportError | TypeError | SyntaxError | ReadError

text \<open>
  The white space and line terminators that \<open>String.prototype.trim\<close> removes and
  that the regular expression class \<open>\s\<close> matches: U+0009 to U+000D, U+0020, U+00A0,
  U+1680, U+2000 to U+200A, U+2028, U+2029, U+202F, U+205F, U+3000 and U+FEFF.
\<close>

definition is_space :: "nat \<Rightarrow> bool" where
  "is_space c \<longleftrightarrow>
     c \<in> set [0x09, 0x0A, 0x0B, 0x0C, 0x0D, 0x20, 0xA0, 0x1680, 0x2028, 0x2029, 0x202F,
              0x205F, 0x3000, 0xFEFF]
     \<or> (0x2000 \<le> c \<and> c \<le> 0x200A)"

definition trim :: "jsstring \<Rightarrow> jsstring" where
  "trim s = rev (dropWhile is_space (rev (dropWhile is_space s)))"

section \<open>services/gemini.ts: the prompt and the generation call\<close>

definition ANALYZE_DIRECTIVE :: jsstring where
  "ANALYZE_DIRECTIVE = js ''Analyze this image/document. Detect what functionality is implied. If it is a real-world object (like a desk), gamify it. If it implies a technical tool, build a simulation. Build a fully interactive web app. IMPORTANT: Do NOT use external image URLs. Recreate the visuals using CSS, SVGs, or Emojis.''"

definition DEMO_REQUEST :: jsstring where
  "DEMO_REQUEST = js ''Create a demo app that shows off your capabilities.''"

text \<open>
  An optional string argument (\<open>fileBase64?: string\<close>) is \<open>None\<close> when it is
  \<open>undefined\<close>; it is truthy when it is a non-empty string.
\<close>

fun truthy_str :: "jsstring option \<Rightarrow> bool" where
  "truthy_str None = False"
| "truthy_str (Some s) = (s \<noteq> [])"

definition context_clause :: "lang \<Rightarrow> jsstring" where
  "context_clause l =
     js ''\<newline>\<newline>CONTEXT: The user is currently browsing the interface in '' @
     (if l = AR then js ''Arabic (RTL)'' else js ''English (LTR)'') @
     (js ''. Adapt the generated application accordingly.'')"

text \<open>
  The value of \<open>finalPrompt\<close> when it is pushed as the text part. Inside
  \<open>if (fileBase64)\<close> the source tests \<open>fileBase64\<close> a second time to choose between
  the analysis directive and the demo request; the model keeps both tests.
\<close>

definition finalPrompt :: "jsstring \<Rightarrow> jsstring option \<Rightarrow> lang \<Rightarrow> jsstring" where
  "finalPrompt prompt fileBase64 l =
     (let p0 = prompt;
          p1 = (if truthy_str fileBase64
                then (if truthy_str fileBase64 then ANALYZE_DIRECTIVE else DEMO_REQUEST)
                else p0);
          p2 = (if prompt \<noteq> [] \<and> length (trim prompt) > 0
                then p1 @ js ''\<newline>\<newline>USER REQUEST: '' @ prompt
                else p1)
      in p2 @ context_clause l)"

datatype part = TextPart jsstring | InlineData jsstring jsstring

definition request_parts :: "jsstring \<Rightarrow> jsstring option \<Rightarrow> jsstring option \<Rightarrow> lang \<Rightarrow> part list" where
  "request_parts prompt fileBase64 mimeType l =
     [TextPart (finalPrompt prompt fileBase64 l)] @
     (case (fileBase64, mimeType) of
        (Some d, Some m) \<Rightarrow> if d \<noteq> [] \<and> m \<noteq> [] then [InlineData d m] else []
      | _ \<Rightarrow> [])"

text \<open>
  The three replacements of the clean-up: \<open>/^```html\s*/\<close>, \<open>/^```\s*/\<close> and
  \<open>/```$/\<close>, each without flags, so each removes at most one match, anchored at the
  start or at the end of the whole text.
\<close>

definition strip_prefix_ws :: "jsstring \<Rightarrow> jsstring \<Rightarrow> jsstring" where
  "strip_prefix_ws fence s =
     (if prefix fence s then dropWhile is_space (drop (length fence) s) else s)"

definition strip_suffix :: "jsstring \<Rightarrow> jsstring \<Rightarrow> jsstring" where
  "strip_suffix fence s =
     (if suffix fence s then take (length s - length fence) s else s)"

definition cleanup :: "jsstring \<Rightarrow> jsstring" where
  "cleanup s = strip_suffix (js ''```'') (strip_prefix_ws (js ''```'') (strip_prefix_ws (js ''```html'') s))"

definition FAILED_PLACEHOLDER :: jsstring where
  "FAILED_PLACEHOLDER = js ''<!-- Failed to generate content -->''"

text \<open>
  The remote call \<open>ai.models.generateContent\<close> is a parameter: given the content parts
  it throws (\<open>Inl\<close>) or returns a response whose \<open>text\<close> is a string or \<open>undefined\<close>.
  The model name, the system instruction and the temperature are constants of every
  request and stay inside that parameter. The \<open>catch\<close> block logs and rethrows.
\<close>

type_synonym generateContent = "part list \<Rightarrow> error + jsstring option"

definition bringToLife ::
  "generateContent \<Rightarrow> jsstring \<Rightarrow> jsstring option \<Rightarrow> jsstring option \<Rightarrow> lang \<Rightarrow> error + jsstring" where
  "bringToLife gc prompt fileBase64 mimeType l =
     (case gc (request_parts prompt fileBase64 mimeType l) of
        Inl e \<Rightarrow> Inl e
      | Inr response_text \<Rightarrow>
          Inr (cleanup (case response_text of
                          Some t \<Rightarrow> if t \<noteq> [] then t else FAILED_PLACEHOLDER
                        | None \<Rightarrow> FAILED_PLACEHOLDER)))"

section \<open>JavaScript values\<close>

text \<open>
  The values the handlers of \<open>App.tsx\<close> work on: what \<open>JSON.parse\<close> returns
  (null, booleans, numbers, strings, arrays, objects), \<open>undefined\<close>, and \<open>Date\<close>
  objects, which carry their time value in milliseconds (\<open>None\<close> is the invalid date).
  An object is the list of its own properties in property order. Numbers are rationals:
  of a number, the source only asks whether it is zero and what date it stands for.
\<close>

datatype jsval =
    Undefined
  | Null
  | Bool bool
  | Num rat
  | Str jsstring
  | DateV "int option"
  | Arr "jsval list"
  | Obj "(jsstring \<times> jsval) list"

type_synonym creation = "(jsstring \<times> jsval) list"

fun truthy :: "jsval \<Rightarrow> bool" where
  "truthy Undefined = False"
| "truthy Null = False"
| "truthy (Bool b) = b"
| "truthy (Num n) = (n \<noteq> 0)"
| "truthy (Str s) = (s \<noteq> [])"
| "truthy (DateV t) = True"
| "truthy (Arr xs) = True"
| "truthy (Obj kvs) = True"

text \<open>\<open>a || b\<close>\<close>

definition js_or :: "jsval \<Rightarrow> jsval \<Rightarrow> jsval" where
  "js_or a b = (if truthy a then a else b)"

text \<open>
  \<open>a === b\<close>. Two objects (arrays, dates) are strictly equal only when they are the
  same object; the source compares the \<open>id\<close> of a freshly parsed document with the
  ids already in the history, which are never the same object, so the model answers
  \<open>False\<close> for them.
\<close>

fun strict_equals :: "jsval \<Rightarrow> jsval \<Rightarrow> bool" where
  "strict_equals Undefined Undefined = True"
| "strict_equals Null Null = True"
| "strict_equals (Bool a) (Bool b) = (a = b)"
| "strict_equals (Num a) (Num b) = (a = b)"
| "strict_equals (Str a) (Str b) = (a = b)"
| "strict_equals a b = False"

text \<open>Reading a property of an object: \<open>undefined\<close> when the object has no such property.\<close>

definition field :: "creation \<Rightarrow> jsstring \<Rightarrow> jsval" where
  "field kvs k = (case map_of kvs k of None \<Rightarrow> Undefined | Some v \<Rightarrow> v)"

text \<open>
  \<open>v.k\<close> for one of the property names the source reads from parsed data (\<open>html\<close>,
  \<open>name\<close>, \<open>id\<close>, \<open>timestamp\<close>): a TypeError on \<open>null\<close> and \<open>undefined\<close>, the own
  property of an object, and \<open>undefined\<close> on every other value, whose prototypes define
  none of these names.
\<close>

fun get_prop :: "jsval \<Rightarrow> jsstring \<Rightarrow> error + jsval" where
  "get_prop Undefined k = Inl TypeError"
| "get_prop Null k = Inl TypeError"
| "get_prop (Obj kvs) k = Inr (field kvs k)"
| "get_prop v k = Inr Undefined"

text \<open>
  \<open>{...o, k: v}\<close>: a property that the spread has already defined keeps its place and
  takes the new value, a new one is added at the end.
\<close>

fun set_prop :: "creation \<Rightarrow> jsstring \<Rightarrow> jsval \<Rightarrow> creation" where
  "set_prop [] k v = [(k, v)]"
| "set_prop ((k', v') # kvs) k v =
     (if k' = k then (k, v) # kvs else (k', v') # set_prop kvs k v)"

text \<open>The decimal digits of an array index, as a property name.\<close>

fun decimal :: "nat \<Rightarrow> jsstring" where
  "decimal n =
     (if n < 10 then [48 + n]
      else decimal (n div 10) @ [48 + n mod 10])"

text \<open>
  The own enumerable properties that \<open>{...v}\<close> copies: those of an object, the indexed
  elements of an array, the indexed characters of a string, none for the other values.
\<close>

fun own_props :: "jsval \<Rightarrow> creation" where
  "own_props (Obj kvs) = kvs"
| "own_props (Arr xs) = map (\<lambda>(i, x). (decimal i, x)) (enumerate 0 xs)"
| "own_props (Str s) = map (\<lambda>(i, c). (decimal i, Str [c])) (enumerate 0 s)"
| "own_props v = []"

text \<open>
  Built-in functions that the model does not compute are parameters:
  \<open>Date.parse\<close> (the time value of a date string, \<open>None\<close> for NaN),
  \<open>Date.prototype.toISOString\<close>, and the conversion of an array or object to a
  primitive string, which throws a TypeError for some of them.
\<close>

record builtins =
  Date_parse :: "jsstring \<Rightarrow> int option"
  toISOString :: "int \<Rightarrow> jsstring"
  ToPrimitive :: "jsval \<Rightarrow> error + jsstring"

definition TimeClip :: "rat \<Rightarrow> int option" where
  "TimeClip n =
     (if \<bar>n\<bar> > 8640000000000000 then None
      else Some (if n < 0 then \<lceil>n\<rceil> else \<lfloor>n\<rfloor>))"

text \<open>\<open>new Date(v)\<close>\<close>

fun new_Date :: "builtins \<Rightarrow> jsval \<Rightarrow> error + jsval" where
  "new_Date B Undefined = Inr (DateV None)"
| "new_Date B Null = Inr (DateV (Some 0))"
| "new_Date B (Bool b) = Inr (DateV (Some (if b then 1 else 0)))"
| "new_Date B (Num n) = Inr (DateV (TimeClip n))"
| "new_Date B (Str s) = Inr (DateV (Date_parse B s))"
| "new_Date B (DateV t) = Inr (DateV t)"
| "new_Date B v =
     (case ToPrimitive B v of
        Inl e \<Rightarrow> Inl e
      | Inr s \<Rightarrow> Inr (DateV (Date_parse B s)))"

text \<open>
  A JSON text is represented by the value \<open>JSON.parse\<close> returns for it, so
  \<open>JSON.stringify\<close> is the function from a value to the value its output parses to:
  a date becomes its ISO string (\<open>null\<close> when invalid), a property whose value is
  \<open>undefined\<close> is left out, an \<open>undefined\<close> array element becomes \<open>null\<close>.
\<close>

fun JSON_stringify :: "builtins \<Rightarrow> jsval \<Rightarrow> jsval" where
  "JSON_stringify B (DateV None) = Null"
| "JSON_stringify B (DateV (Some t)) = Str (toISOString B t)"
| "JSON_stringify B (Arr xs) =
     Arr (map (\<lambda>x. case JSON_stringify B x of Undefined \<Rightarrow> Null | j \<Rightarrow> j) xs)"
| "JSON_stringify B (Obj kvs) =
     Obj (filter (\<lambda>(k, j). j \<noteq> Undefined) (map (\<lambda>(k, v). (k, JSON_stringify B v)) kvs))"
| "JSON_stringify B v = v"

section \<open>App.tsx: state\<close>

text \<open>The three \<open>alert\<close> messages, each in the language of the interface.\<close>

datatype notice = GenerationFailed lang | InvalidFormat lang | ImportFailed lang

record app_state =
  activeCreation :: "creation option"
  isGenerating :: bool
  history :: "creation list"
  alerts :: "notice list"

definition alert :: "notice \<Rightarrow> app_state \<Rightarrow> app_state" where
  "alert n st = st\<lparr>alerts := alerts st @ [n]\<rparr>"

text \<open>
  The state of the first render: the initial values of \<open>useState\<close>, and no notice
  shown yet.
\<close>

definition state0 :: app_state where
  "state0 = \<lparr>activeCreation = None, isGenerating = False, history = [], alerts = []\<rparr>"

text \<open>The Orchestrator is idle when nothing is displayed and nothing is being generated.\<close>

definition idle :: "app_state \<Rightarrow> bool" where
  "idle st \<longleftrightarrow> activeCreation st = None \<and> \<not> isGenerating st"

section \<open>App.tsx: generation\<close>

record js_file =
  file_name :: jsstring
  file_type :: jsstring

text \<open>
  \<open>s.split(c)\<close> for a separator of one code unit (the source splits at the comma,
  44, and at the space, 32), and \<open>words.join(' ')\<close>.
\<close>

fun split_on :: "nat \<Rightarrow> jsstring \<Rightarrow> jsstring list" where
  "split_on c [] = [[]]"
| "split_on c (x # xs) =
     (if x = c then [] # split_on c xs
      else (case split_on c xs of
              [] \<Rightarrow> [[x]]
            | w # ws \<Rightarrow> (x # w) # ws))"

fun join_sp :: "jsstring list \<Rightarrow> jsstring" where
  "join_sp [] = []"
| "join_sp [w] = w"
| "join_sp (w # ws) = w @ js '' '' @ join_sp ws"

text \<open>
  \<open>String.prototype.toLowerCase\<close> as far as the source needs it. It is applied to
  \<open>file.type\<close>, which the File API restricts to ASCII, and to a file name in which
  every code unit but the ASCII letters and digits has been replaced: on such strings
  only the capitals A to Z change. The capitals of the Latin-1 range are covered too.
\<close>

definition lower_char :: "nat \<Rightarrow> nat" where
  "lower_char c =
     (if (65 \<le> c \<and> c \<le> 90) \<or> (192 \<le> c \<and> c \<le> 222 \<and> c \<noteq> 215)
      then c + 32 else c)"

definition toLowerCase :: "jsstring \<Rightarrow> jsstring" where
  "toLowerCase s = map lower_char s"

text \<open>
  \<open>fileToBase64\<close>: the outcome of the \<open>FileReader\<close> is a parameter, an error
  (\<open>onerror\<close>), a result that is not a string (\<open>None\<close>), or the data URL. The promise
  resolves with \<open>reader.result.split(',')[1]\<close>, \<open>undefined\<close> when the URL has no comma.
\<close>

definition fileToBase64 :: "error + jsstring option \<Rightarrow> error + jsstring option" where
  "fileToBase64 reader =
     (case reader of
        Inl e \<Rightarrow> Inl e
      | Inr None \<Rightarrow> Inl ReadError
      | Inr (Some result) \<Rightarrow>
          Inr (case drop 1 (split_on 44 result) of [] \<Rightarrow> None | b # _ \<Rightarrow> Some b))"

text \<open>The default name in Arabic, by the code units of the source's literal.\<close>

definition NEW_CREATION_AR :: jsstring where
  "NEW_CREATION_AR =
     [0x645, 0x634, 0x631, 0x648, 0x639, 0x20, 0x62C, 0x62F, 0x64A, 0x62F]"

definition creationName :: "lang \<Rightarrow> jsstring \<Rightarrow> js_file option \<Rightarrow> jsstring" where
  "creationName l promptText f =
     (case f of
        Some fl \<Rightarrow> file_name fl
      | None \<Rightarrow>
          if promptText \<noteq> [] then
            (let words = split_on 32 promptText;
                 n = join_sp (take 4 words) @ (if length words > 4 then js ''...'' else [])
             in if length n > 30 then take 27 n @ js ''...'' else n)
          else (if l = AR then NEW_CREATION_AR else js ''New Creation''))"

definition originalImage :: "jsstring option \<Rightarrow> jsstring option \<Rightarrow> jsval" where
  "originalImage imageBase64 mimeType =
     (case (imageBase64, mimeType) of
        (Some b, Some m) \<Rightarrow>
          if b \<noteq> [] \<and> m \<noteq> [] then Str (js ''data:'' @ m @ js '';base64,'' @ b) else Undefined
      | _ \<Rightarrow> Undefined)"

definition newCreation ::
  "jsstring \<Rightarrow> jsstring \<Rightarrow> jsstring \<Rightarrow> jsval \<Rightarrow> int \<Rightarrow> creation" where
  "newCreation uuid nm html img now =
     [(js ''id'', Str uuid), (js ''name'', Str nm), (js ''html'', Str html),
      (js ''originalImage'', img), (js ''timestamp'', DateV (Some now))]"

text \<open>
  What \<open>handleGenerate\<close> awaits before it calls \<open>bringToLife\<close>: with a file, its
  base64 text and its lower-cased type; without one, both stay \<open>undefined\<close>.
\<close>

definition encode_file ::
  "error + jsstring option \<Rightarrow> js_file option \<Rightarrow> error + (jsstring option \<times> jsstring option)" where
  "encode_file reader f =
     (case f of
        None \<Rightarrow> Inr (None, None)
      | Some fl \<Rightarrow>
          (case fileToBase64 reader of
             Inl e \<Rightarrow> Inl e
           | Inr b \<Rightarrow> Inr (b, Some (toLowerCase (file_type fl)))))"

text \<open>
  \<open>handleGenerate\<close>, from the call to the end of its \<open>finally\<close> block. The parameters
  \<open>reader\<close>, \<open>gc\<close>, \<open>uuid\<close> and \<open>now\<close> are what the file reader, the remote call,
  \<open>crypto.randomUUID()\<close> and \<open>new Date()\<close> give during this call.
\<close>

definition handleGenerate_start :: "app_state \<Rightarrow> app_state" where
  "handleGenerate_start st = st\<lparr>isGenerating := True, activeCreation := None\<rparr>"

definition handleGenerate ::
  "error + jsstring option \<Rightarrow> generateContent \<Rightarrow> jsstring \<Rightarrow> int \<Rightarrow> lang \<Rightarrow>
   jsstring \<Rightarrow> js_file option \<Rightarrow> app_state \<Rightarrow> app_state" where
  "handleGenerate reader gc uuid now l promptText f st =
     (let st1 = handleGenerate_start st;
          st2 =
            (case encode_file reader f of
               Inl e \<Rightarrow> alert (GenerationFailed l) st1
             | Inr (imageBase64, mimeType) \<Rightarrow>
                 (case bringToLife gc promptText imageBase64 mimeType l of
                    Inl e \<Rightarrow> alert (GenerationFailed l) st1
                  | Inr html \<Rightarrow>
                      if html \<noteq> [] then
                        (let c = newCreation uuid (creationName l promptText f) html
                                   (originalImage imageBase64 mimeType) now
                         in st1\<lparr>activeCreation := Some c, history := c # history st1\<rparr>)
                      else st1))
      in st2\<lparr>isGenerating := False\<rparr>)"

definition handleReset :: "app_state \<Rightarrow> app_state" where
  "handleReset st = st\<lparr>activeCreation := None, isGenerating := False\<rparr>"

definition handleSelectCreation :: "creation \<Rightarrow> app_state \<Rightarrow> app_state" where
  "handleSelectCreation c st = st\<lparr>activeCreation := Some c\<rparr>"

section \<open>App.tsx: import, and the export of LivePreview.tsx\<close>

text \<open>
  The body of the \<open>try\<close> block of \<open>reader.onload\<close>, after \<open>JSON.parse\<close>. It throws
  (\<open>Inl\<close>) or ends with a new state. \<open>now\<close> and \<open>uuid\<close> are what \<open>Date.now()\<close>
  and \<open>crypto.randomUUID()\<close> return if they are called.
\<close>

definition importedCreation ::
  "builtins \<Rightarrow> int \<Rightarrow> jsstring \<Rightarrow> jsval \<Rightarrow> error + creation" where
  "importedCreation B now uuid parsed =
     (case get_prop parsed (js ''timestamp'') of
        Inl e \<Rightarrow> Inl e
      | Inr ts \<Rightarrow>
          (case new_Date B (js_or ts (Num (of_int now))) of
             Inl e \<Rightarrow> Inl e
           | Inr d \<Rightarrow>
               (case get_prop parsed (js ''id'') of
                  Inl e \<Rightarrow> Inl e
                | Inr i \<Rightarrow>
                    Inr (set_prop (set_prop (own_props parsed) (js ''timestamp'') d)
                           (js ''id'') (js_or i (Str uuid))))))"

text \<open>
  \<open>prev.some(c => c.id === i)\<close>, and the updater of \<open>setHistory\<close> in the import, which
  calls it with the id of the imported creation.
\<close>

definition has_id :: "creation list \<Rightarrow> jsval \<Rightarrow> bool" where
  "has_id prev i = list_ex (\<lambda>c. strict_equals (field c (js ''id'')) i) prev"

definition add_if_new :: "creation \<Rightarrow> creation list \<Rightarrow> creation list" where
  "add_if_new c prev = (if has_id prev (field c (js ''id'')) then prev else c # prev)"

definition import_parsed ::
  "builtins \<Rightarrow> int \<Rightarrow> jsstring \<Rightarrow> lang \<Rightarrow> jsval \<Rightarrow> app_state \<Rightarrow> error + app_state" where
  "import_parsed B now uuid l parsed st =
     (case get_prop parsed (js ''html'') of
        Inl e \<Rightarrow> Inl e
      | Inr h \<Rightarrow>
          if \<not> truthy h then Inr (alert (InvalidFormat l) st)
          else
            (case get_prop parsed (js ''name'') of
               Inl e \<Rightarrow> Inl e
             | Inr n \<Rightarrow>
                 if \<not> truthy n then Inr (alert (InvalidFormat l) st)
                 else
                   (case importedCreation B now uuid parsed of
                      Inl e \<Rightarrow> Inl e
                    | Inr c \<Rightarrow>
                        Inr (st\<lparr>history := add_if_new c (history st),
                                 activeCreation := Some c\<rparr>))))"

text \<open>
  \<open>handleImportFile\<close>. The chosen file is \<open>None\<close> when no file was selected; otherwise
  it is given by what \<open>JSON.parse\<close> does with its text: a SyntaxError or the parsed
  value. Every exception of the \<open>try\<close> block ends in the same \<open>catch\<close>.
\<close>

definition handleImportFile ::
  "builtins \<Rightarrow> int \<Rightarrow> jsstring \<Rightarrow> lang \<Rightarrow> (error + jsval) option \<Rightarrow> app_state \<Rightarrow> app_state" where
  "handleImportFile B now uuid l chosen st =
     (case chosen of
        None \<Rightarrow> st
      | Some (Inl e) \<Rightarrow> alert (ImportFailed l) st
      | Some (Inr parsed) \<Rightarrow>
          (case import_parsed B now uuid l parsed st of
             Inl e \<Rightarrow> alert (ImportFailed l) st
           | Inr st' \<Rightarrow> st'))"






section \<open>App.tsx: loading and saving the history\<close>

text \<open>All results of a list of computations, or the first error (\<open>Promise.all\<close>, \<open>map\<close>).\<close>

fun all_or_error :: "(error + 'a) list \<Rightarrow> error + 'a list" where
  "all_or_error [] = Inr []"
| "all_or_error (Inl e # rs) = Inl e"
| "all_or_error (Inr x # rs) =
     (case all_or_error rs of Inl e \<Rightarrow> Inl e | Inr xs \<Rightarrow> Inr (x # xs))"

text \<open>\<open>{...item, timestamp: new Date(item.timestamp)}\<close>\<close>

definition revive :: "builtins \<Rightarrow> jsval \<Rightarrow> error + creation" where
  "revive B item =
     (case get_prop item (js ''timestamp'') of
        Inl e \<Rightarrow> Inl e
      | Inr ts \<Rightarrow>
          (case new_Date B ts of
             Inl e \<Rightarrow> Inl e
           | Inr d \<Rightarrow> Inr (set_prop (own_props item) (js ''timestamp'') d)))"

text \<open>
  The value of \<open>loadedHistory\<close> after the first \<open>if\<close>. The stored item is \<open>None\<close>
  when \<open>getItem\<close> gives \<open>null\<close> or the empty string, otherwise what \<open>JSON.parse\<close>
  does with it. Only an array has a \<open>map\<close> method; any exception leaves the empty list.
\<close>

definition loadedHistory :: "builtins \<Rightarrow> (error + jsval) option \<Rightarrow> creation list" where
  "loadedHistory B saved =
     (case saved of
        Some (Inr (Arr items)) \<Rightarrow>
          (case all_or_error (map (revive B) items) of Inl e \<Rightarrow> [] | Inr cs \<Rightarrow> cs)
      | _ \<Rightarrow> [])"

definition exampleUrls :: "jsstring list" where
  "exampleUrls =
     [(js ''https://storage.googleapis.com/sideprojects-asronline/bringanythingtolife/vibecode-blog.json''),
      (js ''https://storage.googleapis.com/sideprojects-asronline/bringanythingtolife/cassette.json''),
      (js ''https://storage.googleapis.com/sideprojects-asronline/bringanythingtolife/chess.json'')]"

text \<open>
  The network is a parameter: \<open>fetch(url)\<close> rejects or gives a response with its
  \<open>ok\<close> flag and the outcome of \<open>res.json()\<close>. \<open>now\<close> and \<open>uuid\<close> give, for each URL,
  what \<open>Date.now()\<close> and \<open>crypto.randomUUID()\<close> return while that example is built.
  The object built from the data of an example is the same expression as in the import,
  \<open>{...data, timestamp: new Date(data.timestamp || Date.now()), id: data.id || crypto.randomUUID()}\<close>.
\<close>

datatype response = Response bool "error + jsval"

record network =
  fetch :: "jsstring \<Rightarrow> error + response"
  now_at :: "jsstring \<Rightarrow> int"
  uuid_at :: "jsstring \<Rightarrow> jsstring"

definition load_example :: "builtins \<Rightarrow> network \<Rightarrow> jsstring \<Rightarrow> error + creation option" where
  "load_example B N url =
     (case fetch N url of
        Inl e \<Rightarrow> Inl e
      | Inr (Response ok body) \<Rightarrow>
          if \<not> ok then Inr None
          else
            (case body of
               Inl e \<Rightarrow> Inl e
             | Inr data \<Rightarrow>
                 (case importedCreation B (now_at N url) (uuid_at N url) data of
                    Inl e \<Rightarrow> Inl e
                  | Inr c \<Rightarrow> Inr (Some c))))"

text \<open>
  \<open>initHistory\<close>: the new state and the URLs that were requested. All three requests
  are started before any is awaited; when one of the three promises rejects,
  \<open>Promise.all\<close> rejects, the \<open>catch\<close> logs, and \<open>setHistory\<close> is not called.
\<close>

definition initHistory ::
  "builtins \<Rightarrow> network \<Rightarrow> (error + jsval) option \<Rightarrow> app_state \<Rightarrow> app_state \<times> jsstring list" where
  "initHistory B N saved st =
     (let loaded = loadedHistory B saved
      in if length loaded > 0 then (st\<lparr>history := loaded\<rparr>, [])
         else
           (case all_or_error (map (load_example B N) exampleUrls) of
              Inl e \<Rightarrow> (st, exampleUrls)
            | Inr examples \<Rightarrow>
                (st\<lparr>history := List.map_filter id examples\<rparr>, exampleUrls)))"

text \<open>
  The effect that saves the history. The stored archive is \<open>None\<close> when there is no
  item, otherwise the JSON document it holds; \<open>setItem_ok\<close> tells whether
  \<open>localStorage.setItem\<close> succeeds (it throws when the quota is exceeded, which the
  \<open>catch\<close> only logs).
\<close>

definition save_history ::
  "builtins \<Rightarrow> bool \<Rightarrow> creation list \<Rightarrow> jsval option \<Rightarrow> jsval option" where
  "save_history B setItem_ok h archive =
     (if length h > 0
      then (if setItem_ok then Some (JSON_stringify B (Arr (map Obj h))) else archive)
      else archive)"

section \<open>Concrete inputs\<close>

text \<open>
  Inputs at which the properties below are evaluated. \<open>builtins0\<close> agrees with the
  built-in functions on the arguments that these evaluations reach: the two dates
  1970-01-01 and 2024-01-01 at midnight UTC, and objects as arguments of the conversion
  to a primitive (\<open>[object Object]\<close>, or a TypeError when the object has a property
  \<open>toString\<close> of its own, which is never callable in parsed JSON).
\<close>

definition builtins0 :: builtins where
  "builtins0 =
     \<lparr>Date_parse = (\<lambda>s. if s = (js ''1970-01-01T00:00:00.000Z'') then Some 0
                        else if s = (js ''2024-01-01T00:00:00.000Z'') then Some 1704067200000
                        else None),
      toISOString = (\<lambda>t. if t = 1704067200000 then js ''2024-01-01T00:00:00.000Z''
                         else js ''1970-01-01T00:00:00.000Z''),
      ToPrimitive = (\<lambda>v. case v of
                           Obj kvs \<Rightarrow> if map_of kvs (js ''toString'') = None
                                      then Inr (js ''[object Object]'') else Inl TypeError
                         | _ \<Rightarrow> Inl TypeError)\<rparr>"

text \<open>A remote call that returns a response without text, and one that throws.\<close>

definition empty_response :: generateContent where
  "empty_response parts = Inr None"

definition failing_call :: generateContent where
  "failing_call parts = Inl TransportError"

definition chess_clock :: creation where
  "chess_clock = newCreation (js ''id-1'') (js ''a chess clock'') (js ''<!DOCTYPE html><p>clock</p>'') Undefined 0"

definition html_response :: generateContent where
  "html_response parts = Inr (Some (js ''<!DOCTYPE html><p>hi</p>''))"

text \<open>
  Networks: one that serves, for every URL, an example document whose id is the URL,
  one whose first request is rejected (a network error), and one whose first response
  is not \<open>ok\<close>.
\<close>

definition example_doc :: "jsstring \<Rightarrow> jsval" where
  "example_doc url =
     Obj [(js ''id'', Str url), (js ''name'', Str (js ''Chess'')),
          (js ''html'', Str (js ''<!DOCTYPE html><p>chess</p>'')),
          (js ''timestamp'', Str (js ''2024-01-01T00:00:00.000Z''))]"

definition example_creation :: "jsstring \<Rightarrow> creation" where
  "example_creation url =
     [(js ''id'', Str url), (js ''name'', Str (js ''Chess'')),
      (js ''html'', Str (js ''<!DOCTYPE html><p>chess</p>'')),
      (js ''timestamp'', DateV (Some 1704067200000))]"

definition network_ok :: network where
  "network_ok =
     \<lparr>fetch = (\<lambda>url. Inr (Response True (Inr (example_doc url)))),
      now_at = (\<lambda>url. 0),
      uuid_at = (\<lambda>url. (js ''uuid-1''))\<rparr>"

definition network_first_rejects :: network where
  "network_first_rejects =
     \<lparr>fetch = (\<lambda>url.
         if url = (js ''https://storage.googleapis.com/sideprojects-asronline/bringanythingtolife/vibecode-blog.json'')
         then Inl TransportError else Inr (Response True (Inr (example_doc url)))),
      now_at = (\<lambda>url. 0),
      uuid_at = (\<lambda>url. (js ''uuid-1''))\<rparr>"

definition network_first_not_ok :: network where
  "network_first_not_ok =
     \<lparr>fetch = (\<lambda>url.
         if url = (js ''https://storage.googleapis.com/sideprojects-asronline/bringanythingtolife/vibecode-blog.json'')
         then Inr (Response False (Inl SyntaxError))
         else Inr (Response True (Inr (example_doc url)))),
      now_at = (\<lambda>url. 0),
      uuid_at = (\<lambda>url. (js ''uuid-1''))\<rparr>"

section \<open>What the import accepts\<close>

text \<open>
  The raw input is importable when it parses to an object whose \<open>html\<close> and \<open>name\<close>
  are truthy and from whose \<open>timestamp\<close> (or, when that is falsy, from the current
  time) a date can be built.
\<close>

fun importable :: "builtins \<Rightarrow> int \<Rightarrow> error + jsval \<Rightarrow> bool" where
  "importable B now (Inr (Obj kvs)) =
     (truthy (field kvs (js ''html'')) \<and> truthy (field kvs (js ''name''))
      \<and> \<not> isl (new_Date B (js_or (field kvs (js ''timestamp'')) (Num (of_int now)))))"
| "importable B now raw = False"

section \<open>Ids, and sequences of insertions\<close>

text \<open>
  The ids of a collection, in its order; and the values that \<open>===\<close> compares by value
  (every value but a date, an array or an object).
\<close>

definition ids :: "creation list \<Rightarrow> jsval list" where
  "ids h = map (\<lambda>c. field c (js ''id'')) h"

fun primitive :: "jsval \<Rightarrow> bool" where
  "primitive (DateV t) = False"
| "primitive (Arr xs) = False"
| "primitive (Obj kvs) = False"
| "primitive v = True"

definition timestamps :: "creation list \<Rightarrow> jsval list" where
  "timestamps h = map (\<lambda>c. field c (js ''timestamp'')) h"

text \<open>
  The two handlers that insert into the history, each with the inputs of one call, and
  the state after a sequence of such calls.
\<close>

datatype action =
    Generate "error + jsstring option" generateContent jsstring int jsstring "js_file option"
  | Import int jsstring "(error + jsval) option"

fun perform :: "builtins \<Rightarrow> lang \<Rightarrow> action \<Rightarrow> app_state \<Rightarrow> app_state" where
  "perform B l (Generate reader gc uuid now promptText f) st =
     handleGenerate reader gc uuid now l promptText f st"
| "perform B l (Import now uuid chosen) st = handleImportFile B now uuid l chosen st"

fun run :: "builtins \<Rightarrow> lang \<Rightarrow> action list \<Rightarrow> app_state \<Rightarrow> app_state" where
  "run B l [] st = st"
| "run B l (a # as) st = run B l as (perform B l a st)"

text \<open>
  The Creation that a call is to insert, told from its inputs alone: a generation whose
  file is read, whose remote call returns and whose document is not empty inserts the
  Creation it mints; an import inserts the imported Creation when the input is
  importable and its id (or the fresh one, when it has none) is not strictly equal to
  an id of the collection. Every other call inserts nothing. \<open>insertions\<close> lists what
  a sequence of calls is to insert, in the order of the calls.
\<close>

fun inserted :: "builtins \<Rightarrow> lang \<Rightarrow> action \<Rightarrow> app_state \<Rightarrow> creation option" where
  "inserted B l (Generate reader gc uuid now promptText f) st =
     (case encode_file reader f of
        Inl e \<Rightarrow> None
      | Inr (b, m) \<Rightarrow>
          (case bringToLife gc promptText b m l of
             Inl e \<Rightarrow> None
           | Inr html \<Rightarrow>
               if html = [] then None
               else Some (newCreation uuid (creationName l promptText f) html
                            (originalImage b m) now)))"
| "inserted B l (Import now uuid chosen) st =
     (case chosen of
        Some (Inr (Obj kvs)) \<Rightarrow>
          if importable B now (Inr (Obj kvs))
             \<and> \<not> has_id (history st) (js_or (field kvs (js ''id'')) (Str uuid))
          then (case new_Date B (js_or (field kvs (js ''timestamp'')) (Num (of_int now))) of
                  Inl e \<Rightarrow> None
                | Inr d \<Rightarrow>
                    Some (set_prop (set_prop kvs (js ''timestamp'') d) (js ''id'')
                            (js_or (field kvs (js ''id'')) (Str uuid))))
          else None
      | _ \<Rightarrow> None)"

fun insertions :: "builtins \<Rightarrow> lang \<Rightarrow> action list \<Rightarrow> app_state \<Rightarrow> creation list" where
  "insertions B l [] st = []"
| "insertions B l (a # as) st =
     (case inserted B l a st of None \<Rightarrow> [] | Some c \<Rightarrow> [c])
     @ insertions B l as (perform B l a st)"

section \<open>More concrete inputs\<close>

text \<open>
  A state whose history holds the chess clock; an image file whose name is empty, what
  the file reader gives for it, and the Creation generated from it; a document whose
  \<open>html\<close> is the empty string; and a document whose \<open>timestamp\<close> is an object with
  a property \<open>toString\<close>.
\<close>

definition state1 :: app_state where
  "state1 = state0\<lparr>history := [chess_clock]\<rparr>"




definition empty_html_doc :: creation where
  "empty_html_doc = [(js ''html'', Str []), (js ''name'', Str (js ''Chess''))]"

definition odd_timestamp_doc :: creation where
  "odd_timestamp_doc =
     [(js ''html'', Str (js ''<!DOCTYPE html><p>chess</p>'')), (js ''name'', Str (js ''Chess'')),
      (js ''timestamp'', Obj [(js ''toString'', Num 1)])]"

text \<open>The JSON document that the export writes for the chess clock.\<close>

definition chess_clock_doc :: creation where
  "chess_clock_doc =
     [(js ''id'', Str (js ''id-1'')), (js ''name'', Str (js ''a chess clock'')),
      (js ''html'', Str (js ''<!DOCTYPE html><p>clock</p>'')),
      (js ''timestamp'', Str (js ''1970-01-01T00:00:00.000Z''))]"

definition array_id_doc :: creation where
  "array_id_doc =
     [(js ''id'', Arr [Num 1]), (js ''name'', Str (js ''Chess'')),
      (js ''html'', Str (js ''<!DOCTYPE html><p>chess</p>''))]"

text \<open>
  The state after the document with an array as its id has been imported once; a
  generation in 2024 followed by the import of the chess clock document, whose
  timestamp is in 1970; and the Creation that this generation mints.
\<close>

definition state_array :: app_state where
  "state_array =
     handleImportFile builtins0 7 (js ''uuid-9'') EN (Some (Inr (Obj array_id_doc))) state0"

definition timer :: creation where
  "timer =
     newCreation (js ''id-2'') (js ''a timer'') (js ''<!DOCTYPE html><p>hi</p>'') Undefined
       1704067200000"

definition two_calls :: "action list" where
  "two_calls =
     [Generate (Inr None) html_response (js ''id-2'') 1704067200000 (js ''a timer'') None,
      Import 1704067200001 (js ''uuid-9'') (Some (Inr (Obj chess_clock_doc)))]"

definition imported_chess_clock :: creation where
  "imported_chess_clock =
     [(js ''id'', Str (js ''id-1'')), (js ''name'', Str (js ''a chess clock'')),
      (js ''html'', Str (js ''<!DOCTYPE html><p>clock</p>'')),
      (js ''timestamp'', DateV (Some 0))]"

section \<open>String literals\<close>

lemma js_inject [simp]: "js s = js t \<longleftrightarrow> s = t"
  by (simp add: js_def inj_map_eq_map inj_on_def)

lemma js_Nil_iff [simp]: "js s = [] \<longleftrightarrow> s = []" "[] = js s \<longleftrightarrow> s = []"
  by (auto simp: js_def)

section \<open>Properties of the prompt\<close>

lemma context_clause_no_demo_EN: "\<not> sublist DEMO_REQUEST (context_clause EN)"
  by code_simp

lemma context_clause_no_demo_AR: "\<not> sublist DEMO_REQUEST (context_clause AR)"
  by code_simp

lemma context_clause_no_demo: "\<not> sublist DEMO_REQUEST (context_clause l)"
  by (cases l) (simp_all add: context_clause_no_demo_EN context_clause_no_demo_AR)

lemma finalPrompt_empty: "finalPrompt [] None l = context_clause l"
  by (simp add: finalPrompt_def)

lemma finalPrompt_empty_file: "finalPrompt [] (Some []) l = context_clause l"
  by (simp add: finalPrompt_def)

lemma context_clause_nonempty: "context_clause l \<noteq> []"
  by (simp add: context_clause_def)

text \<open>
  C2 (evaluation of the code where the claim fails). With no file and empty free text
  the text sent to the model is the locale clause alone: it is not empty, but the fixed
  demo-request instruction is not part of it, for either language. The same holds when
  the base64 text of the file is the empty string.
\<close>

theorem C2_no_file_empty_text_prompt:
  "finalPrompt [] None l = context_clause l
   \<and> finalPrompt [] None l \<noteq> []
   \<and> \<not> sublist DEMO_REQUEST (finalPrompt [] None l)
   \<and> \<not> sublist DEMO_REQUEST (finalPrompt [] (Some []) l)"
  by (simp only: finalPrompt_empty finalPrompt_empty_file context_clause_nonempty
        context_clause_no_demo not_False_eq_True simp_thms)

section \<open>Generation: an empty result, a failing call\<close>

lemma cleanup_placeholder: "cleanup FAILED_PLACEHOLDER = FAILED_PLACEHOLDER"
  by code_simp

lemma FAILED_PLACEHOLDER_nonempty: "FAILED_PLACEHOLDER \<noteq> []"
  by (simp add: FAILED_PLACEHOLDER_def)

lemma bringToLife_empty:
  assumes "gc (request_parts prompt b m l) = Inr t" and "t = None \<or> t = Some []"
  shows "bringToLife gc prompt b m l = Inr FAILED_PLACEHOLDER"
  using assms by (auto simp: bringToLife_def cleanup_placeholder)

lemma handleGenerate_empty:
  assumes "gc (request_parts prompt b m l) = Inr t" and "t = None \<or> t = Some []"
    and "encode_file reader f = Inr (b, m)"
  shows "handleGenerate reader gc uuid now l prompt f st =
        st\<lparr>activeCreation :=
              Some (newCreation uuid (creationName l prompt f) FAILED_PLACEHOLDER
                      (originalImage b m) now),
            history :=
              newCreation uuid (creationName l prompt f) FAILED_PLACEHOLDER
                (originalImage b m) now # history st,
            isGenerating := False\<rparr>"
  using assms(3) bringToLife_empty[of gc prompt b m l t, OF assms(1,2)]
  by (simp add: handleGenerate_def handleGenerate_start_def FAILED_PLACEHOLDER_nonempty Let_def)

lemma encode_no_file: "encode_file reader None = Inr (None, None)"
  by (simp add: encode_file_def)

lemma name_chess_clock: "creationName EN (js ''a chess clock'') None = js ''a chess clock''"
  by code_simp

lemma originalImage_none: "originalImage None None = Undefined"
  by (simp add: originalImage_def)

text \<open>
  C1, as amended. When the remote model returns an empty result (a response whose text
  is \<open>undefined\<close> or the empty string), \<open>bringToLife\<close> does not fail: it returns the
  fixed placeholder document \<open><!-- Failed to generate content -->\<close>, and
  \<open>handleGenerate\<close> mints a Creation that holds the placeholder, displays it and
  prepends it to the history.
\<close>

theorem C1_empty_result_gives_placeholder:
  assumes "gc (request_parts prompt b m l) = Inr t" and "t = None \<or> t = Some []"
    and "encode_file reader f = Inr (b, m)"
  shows "bringToLife gc prompt b m l = Inr FAILED_PLACEHOLDER
    \<and> handleGenerate reader gc uuid now l prompt f st =
        st\<lparr>activeCreation :=
              Some (newCreation uuid (creationName l prompt f) FAILED_PLACEHOLDER
                      (originalImage b m) now),
            history :=
              newCreation uuid (creationName l prompt f) FAILED_PLACEHOLDER
                (originalImage b m) now # history st,
            isGenerating := False\<rparr>"
  using bringToLife_empty[of gc prompt b m l t, OF assms(1,2)]
    handleGenerate_empty[of gc prompt b m l t reader f uuid now st, OF assms]
  by simp

theorem C1_empty_result_gives_placeholder_witness:
  "empty_response (request_parts (js ''a chess clock'') None None EN) = Inr None
   \<and> encode_file (Inr None) None = Inr (None, None)
   \<and> bringToLife empty_response (js ''a chess clock'') None None EN = Inr FAILED_PLACEHOLDER
   \<and> handleGenerate (Inr None) empty_response (js ''id-2'') 5 EN (js ''a chess clock'') None state0 =
       state0\<lparr>activeCreation :=
              Some (newCreation (js ''id-2'') (js ''a chess clock'') FAILED_PLACEHOLDER Undefined 5),
            history := [newCreation (js ''id-2'') (js ''a chess clock'') FAILED_PLACEHOLDER Undefined 5],
            isGenerating := False\<rparr>"
proof -
  have h0: "history state0 = []"
    by (simp add: state0_def)
  have r: "empty_response (request_parts (js ''a chess clock'') None None EN) = Inr None"
    by (simp add: empty_response_def)
  show ?thesis
    using C1_empty_result_gives_placeholder[of empty_response "(js ''a chess clock'')" None None EN
        None "Inr None" None "(js ''id-2'')" 5 state0, OF r _ encode_no_file]
    by (simp add: r encode_no_file name_chess_clock originalImage_none h0)
qed

text \<open>
  C1 as stated fails: at a response without text \<open>bringToLife\<close> returns a document
  instead of failing, and the history gains a Creation.
\<close>

theorem C1_counterexample:
  "\<not> isl (bringToLife empty_response (js ''a chess clock'') None None EN)
   \<and> history (handleGenerate (Inr None) empty_response (js ''id-2'') 5 EN (js ''a chess clock'') None state0)
       \<noteq> history state0"
proof -
  have r: "empty_response (request_parts (js ''a chess clock'') None None EN) = Inr None"
    by (simp add: empty_response_def)
  show ?thesis
    using bringToLife_empty[of empty_response "(js ''a chess clock'')" None None EN None, OF r]
      handleGenerate_empty[of empty_response "(js ''a chess clock'')" None None EN None "Inr None"
        None "(js ''id-2'')" 5 state0, OF r _ encode_no_file]
    by (simp add: state0_def)
qed

text \<open>
  C9. When the remote call of a generation attempt throws, \<open>handleGenerate\<close> ends in
  the idle state (nothing displayed, not generating), the history is exactly the one
  before the attempt, and the failure notice is shown.
\<close>

theorem C9_failed_generation_returns_to_idle:
  assumes "encode_file reader f = Inr (b, m)"
    and "gc (request_parts prompt b m l) = Inl e"
  shows "idle (handleGenerate reader gc uuid now l prompt f st)
    \<and> history (handleGenerate reader gc uuid now l prompt f st) = history st
    \<and> alerts (handleGenerate reader gc uuid now l prompt f st) = alerts st @ [GenerationFailed l]"
  using assms
  by (simp add: handleGenerate_def handleGenerate_start_def bringToLife_def alert_def idle_def Let_def)

theorem C9_failed_generation_returns_to_idle_witness:
  "encode_file (Inr None) None = Inr (None, None)
   \<and> failing_call (request_parts (js ''a chess clock'') None None EN) = Inl TransportError
   \<and> idle (handleGenerate (Inr None) failing_call (js ''id-2'') 5 EN (js ''a chess clock'') None state1)
   \<and> history (handleGenerate (Inr None) failing_call (js ''id-2'') 5 EN (js ''a chess clock'') None state1)
       = [chess_clock]
   \<and> alerts (handleGenerate (Inr None) failing_call (js ''id-2'') 5 EN (js ''a chess clock'') None state1)
       = [GenerationFailed EN]"
proof -
  have r: "failing_call (request_parts (js ''a chess clock'') None None EN) = Inl TransportError"
    by (simp add: failing_call_def)
  show ?thesis
    using C9_failed_generation_returns_to_idle[of "Inr None" None None None failing_call
        "(js ''a chess clock'')" EN TransportError "(js ''id-2'')" 5 state1, OF encode_no_file r]
    by (simp add: r encode_no_file state1_def state0_def)
qed

section \<open>Saving the history\<close>

text \<open>
  C10. The effect writes only when the history is not empty. With an empty history (as
  on the first render, and as loaded when the stored item is absent or does not parse)
  the archive stays as it is; whenever the effect changes the archive, the history is
  not empty and the archive becomes its JSON document.
\<close>

theorem C10_empty_history_is_never_saved:
  "(h = [] \<longrightarrow> save_history B ok h archive = archive)
   \<and> (save_history B ok h archive \<noteq> archive \<longrightarrow>
        h \<noteq> [] \<and> save_history B ok h archive = Some (JSON_stringify B (Arr (map Obj h))))
   \<and> history state0 = [] \<and> loadedHistory B None = [] \<and> loadedHistory B (Some (Inl e)) = []"
  by (simp add: save_history_def state0_def loadedHistory_def)

theorem C10_empty_history_is_never_saved_witness:
  "save_history builtins0 True [] (Some (Arr [Null])) = Some (Arr [Null])
   \<and> save_history builtins0 True [chess_clock] None \<noteq> None
   \<and> save_history builtins0 True [chess_clock] None
       = Some (JSON_stringify builtins0 (Arr [Obj chess_clock]))"
proof -
  have ne: "save_history builtins0 True [chess_clock] None \<noteq> None"
    by (simp add: save_history_def)
  show ?thesis
    using C10_empty_history_is_never_saved[of "[]" builtins0 True "Some (Arr [Null])"]
      C10_empty_history_is_never_saved[of "[chess_clock]" builtins0 True None] ne
    by simp
qed

section \<open>The import\<close>

lemma field_set_prop: "field (set_prop kvs k v) k' = (if k' = k then v else field kvs k')"
  by (induction kvs) (auto simp: field_def)

lemma importedCreation_Obj:
  "importedCreation B now uuid (Obj kvs) =
     (case new_Date B (js_or (field kvs (js ''timestamp'')) (Num (of_int now))) of
        Inl e \<Rightarrow> Inl e
      | Inr d \<Rightarrow> Inr (set_prop (set_prop kvs (js ''timestamp'') d) (js ''id'')
                       (js_or (field kvs (js ''id'')) (Str uuid))))"
  by (simp add: importedCreation_def split: sum.splits)

lemma import_not_importable:
  "\<not> importable B now raw \<Longrightarrow>
     handleImportFile B now uuid l (Some raw) st = alert (InvalidFormat l) st
     \<or> handleImportFile B now uuid l (Some raw) st = alert (ImportFailed l) st"
proof (cases raw)
  case (Inl e)
  then show ?thesis by (simp add: handleImportFile_def)
next
  case (Inr parsed)
  assume ni: "\<not> importable B now raw"
  show ?thesis
  proof (cases parsed)
    case (Obj kvs)
    with Inr ni show ?thesis
      by (auto simp: handleImportFile_def import_parsed_def importedCreation_Obj
          split: sum.splits)
  qed (use Inr in \<open>simp_all add: handleImportFile_def import_parsed_def\<close>)
qed

lemma import_importable:
  assumes "importable B now raw"
  shows "\<exists>kvs d. raw = Inr (Obj kvs)
     \<and> new_Date B (js_or (field kvs (js ''timestamp'')) (Num (of_int now))) = Inr d
     \<and> handleImportFile B now uuid l (Some raw) st =
         st\<lparr>history := add_if_new (set_prop (set_prop kvs (js ''timestamp'') d) (js ''id'')
                                   (js_or (field kvs (js ''id'')) (Str uuid))) (history st),
            activeCreation := Some (set_prop (set_prop kvs (js ''timestamp'') d) (js ''id'')
                                   (js_or (field kvs (js ''id'')) (Str uuid)))\<rparr>"
proof -
  from assms obtain kvs where raw: "raw = Inr (Obj kvs)"
    by (cases "(B, now, raw)" rule: importable.cases) auto
  with assms obtain d where
    d: "new_Date B (js_or (field kvs (js ''timestamp'')) (Num (of_int now))) = Inr d"
    by (cases "new_Date B (js_or (field kvs (js ''timestamp'')) (Num (of_int now)))") auto
  from assms raw d show ?thesis
    by (simp add: handleImportFile_def import_parsed_def importedCreation_Obj)
qed

lemma import_history_cases:
  "history (handleImportFile B now uuid l chosen st) = history st
   \<or> (\<exists>c. history (handleImportFile B now uuid l chosen st) = c # history st
        \<and> \<not> has_id (history st) (field c (js ''id''))
        \<and> activeCreation (handleImportFile B now uuid l chosen st) = Some c)"
proof (cases chosen)
  case None
  then show ?thesis by (simp add: handleImportFile_def)
next
  case (Some raw)
  show ?thesis
  proof (cases "importable B now raw")
    case True
    from import_importable[OF True, of uuid l st] obtain c where
      c: "handleImportFile B now uuid l (Some raw) st =
            st\<lparr>history := add_if_new c (history st), activeCreation := Some c\<rparr>"
      by blast
    show ?thesis
      unfolding Some c
      by (cases "has_id (history st) (field c (js ''id''))") (simp_all add: add_if_new_def)
  next
    case False
    from import_not_importable[OF False, of uuid l st] Some show ?thesis
      by (auto simp: alert_def)
  qed
qed

lemma generate_history_cases:
  "history (handleGenerate reader gc uuid now l p f st) = history st
   \<or> (\<exists>c. history (handleGenerate reader gc uuid now l p f st) = c # history st
        \<and> field c (js ''id'') = Str uuid
        \<and> activeCreation (handleGenerate reader gc uuid now l p f st) = Some c)"
  by (auto simp: handleGenerate_def handleGenerate_start_def alert_def Let_def newCreation_def
      field_def split: sum.splits prod.splits)

lemma importable_chess_clock_doc: "importable builtins0 7 (Inr (Obj chess_clock_doc))"
  by code_simp

lemma not_importable_empty_html: "\<not> importable builtins0 7 (Inr (Obj empty_html_doc))"
  by code_simp

lemma import_empty_html:
  "handleImportFile builtins0 7 (js ''uuid-9'') EN (Some (Inr (Obj empty_html_doc))) state0
     = alert (InvalidFormat EN) state0"
  by code_simp

lemma import_odd_timestamp:
  "handleImportFile builtins0 7 (js ''uuid-9'') EN (Some (Inr (Obj odd_timestamp_doc))) state0
     = alert (ImportFailed EN) state0"
  by code_simp

text \<open>
  C7, as amended. The import succeeds exactly when the raw input parses to an object
  whose \<open>html\<close> and \<open>name\<close> are truthy (present and neither empty, zero, false nor
  null) and a date can be built from its \<open>timestamp\<close>. On success the imported
  Creation keeps \<open>html\<close> and \<open>name\<close>, takes the id of the input or, when that is
  missing or falsy, the fresh one, and takes the date built from the timestamp or, when
  that is missing or falsy, from the current time; it is displayed, and added to the
  history unless its id is known. In every other case one notice is shown and nothing
  else of the state changes. No notice is shown exactly when the input is importable.
\<close>

theorem C7_import_validation:
  "(importable B now raw \<longrightarrow>
      (\<exists>kvs d c. raw = Inr (Obj kvs)
         \<and> new_Date B (js_or (field kvs (js ''timestamp'')) (Num (of_int now))) = Inr d
         \<and> handleImportFile B now uuid l (Some raw) st
             = st\<lparr>history := add_if_new c (history st), activeCreation := Some c\<rparr>
         \<and> field c (js ''html'') = field kvs (js ''html'') \<and> field c (js ''name'') = field kvs (js ''name'')
         \<and> field c (js ''id'') = (if truthy (field kvs (js ''id'')) then field kvs (js ''id'') else Str uuid)
         \<and> field c (js ''timestamp'') = d))
   \<and> (\<not> importable B now raw \<longrightarrow>
        handleImportFile B now uuid l (Some raw) st = alert (InvalidFormat l) st
        \<or> handleImportFile B now uuid l (Some raw) st = alert (ImportFailed l) st)
   \<and> (alerts (handleImportFile B now uuid l (Some raw) st) = alerts st
        \<longleftrightarrow> importable B now raw)"
proof (cases "importable B now raw")
  case True
  from import_importable[OF True, of uuid l st] obtain kvs d where
    kd: "raw = Inr (Obj kvs)"
      "new_Date B (js_or (field kvs (js ''timestamp'')) (Num (of_int now))) = Inr d"
      "handleImportFile B now uuid l (Some raw) st =
         st\<lparr>history := add_if_new (set_prop (set_prop kvs (js ''timestamp'') d) (js ''id'')
                                   (js_or (field kvs (js ''id'')) (Str uuid))) (history st),
            activeCreation := Some (set_prop (set_prop kvs (js ''timestamp'') d) (js ''id'')
                                   (js_or (field kvs (js ''id'')) (Str uuid)))\<rparr>"
    by blast
  have "alerts (handleImportFile B now uuid l (Some raw) st) = alerts st"
    by (simp add: kd(3))
  moreover have "\<exists>kvs d c. raw = Inr (Obj kvs)
         \<and> new_Date B (js_or (field kvs (js ''timestamp'')) (Num (of_int now))) = Inr d
         \<and> handleImportFile B now uuid l (Some raw) st
             = st\<lparr>history := add_if_new c (history st), activeCreation := Some c\<rparr>
         \<and> field c (js ''html'') = field kvs (js ''html'') \<and> field c (js ''name'') = field kvs (js ''name'')
         \<and> field c (js ''id'') = (if truthy (field kvs (js ''id'')) then field kvs (js ''id'') else Str uuid)
         \<and> field c (js ''timestamp'') = d"
    using kd
    by (intro exI[of _ kvs] exI[of _ d]
        exI[of _ "set_prop (set_prop kvs (js ''timestamp'') d) (js ''id'')
                    (js_or (field kvs (js ''id'')) (Str uuid))"])
      (simp add: field_set_prop js_or_def)
  ultimately show ?thesis using True by simp
next
  case False
  from import_not_importable[OF False, of uuid l st]
  have d: "handleImportFile B now uuid l (Some raw) st = alert (InvalidFormat l) st
        \<or> handleImportFile B now uuid l (Some raw) st = alert (ImportFailed l) st" .
  then have "alerts (handleImportFile B now uuid l (Some raw) st) \<noteq> alerts st"
    by (auto simp: alert_def)
  with d False show ?thesis by simp
qed

theorem C7_import_validation_witness:
  "importable builtins0 7 (Inr (Obj chess_clock_doc))
   \<and> alerts (handleImportFile builtins0 7 (js ''uuid-9'') EN (Some (Inr (Obj chess_clock_doc))) state0)
       = alerts state0
   \<and> \<not> importable builtins0 7 (Inr (Obj empty_html_doc))
   \<and> handleImportFile builtins0 7 (js ''uuid-9'') EN (Some (Inr (Obj empty_html_doc))) state0
       = alert (InvalidFormat EN) state0
   \<and> alerts (handleImportFile builtins0 7 (js ''uuid-9'') EN (Some (Inr (Obj empty_html_doc))) state0)
       \<noteq> alerts state0"
  using C7_import_validation[of builtins0 7 "Inr (Obj chess_clock_doc)" "(js ''uuid-9'')" EN state0]
    C7_import_validation[of builtins0 7 "Inr (Obj empty_html_doc)" "(js ''uuid-9'')" EN state0]
    importable_chess_clock_doc not_importable_empty_html import_empty_html
  by simp

text \<open>
  C7 as stated fails: a document that parses and has both mandatory fields, with the
  empty string as its \<open>html\<close>, is rejected; and so is a document whose two mandatory
  fields are non-empty strings and whose \<open>timestamp\<close> is an object that cannot be
  converted to a primitive, since \<open>new Date\<close> throws on it.
\<close>

theorem C7_counterexample:
  "map_of empty_html_doc (js ''html'') \<noteq> None \<and> map_of empty_html_doc (js ''name'') \<noteq> None
   \<and> handleImportFile builtins0 7 (js ''uuid-9'') EN (Some (Inr (Obj empty_html_doc))) state0
       = alert (InvalidFormat EN) state0
   \<and> activeCreation (handleImportFile builtins0 7 (js ''uuid-9'') EN
                        (Some (Inr (Obj empty_html_doc))) state0) = None
   \<and> field odd_timestamp_doc (js ''html'') = Str (js ''<!DOCTYPE html><p>chess</p>'')
   \<and> field odd_timestamp_doc (js ''name'') = Str (js ''Chess'')
   \<and> handleImportFile builtins0 7 (js ''uuid-9'') EN (Some (Inr (Obj odd_timestamp_doc))) state0
       = alert (ImportFailed EN) state0"
  unfolding import_empty_html import_odd_timestamp
  by (simp add: empty_html_doc_def odd_timestamp_doc_def field_def alert_def state0_def)

section \<open>Insertion and unique ids\<close>

lemma generate_success:
  assumes "encode_file reader f = Inr (b, m)"
    and "bringToLife gc p b m l = Inr html" and "html \<noteq> []"
  shows "handleGenerate reader gc uuid now l p f st =
           st\<lparr>activeCreation :=
                 Some (newCreation uuid (creationName l p f) html (originalImage b m) now),
               history :=
                 newCreation uuid (creationName l p f) html (originalImage b m) now # history st,
               isGenerating := False\<rparr>"
  using assms by (simp add: handleGenerate_def handleGenerate_start_def Let_def)

lemma import_new_id:
  assumes "importable B now (Inr (Obj kvs))"
    and "\<not> has_id (history st) (js_or (field kvs (js ''id'')) (Str uuid))"
  shows "\<exists>d. new_Date B (js_or (field kvs (js ''timestamp'')) (Num (of_int now))) = Inr d
     \<and> history (handleImportFile B now uuid l (Some (Inr (Obj kvs))) st) =
         set_prop (set_prop kvs (js ''timestamp'') d) (js ''id'')
           (js_or (field kvs (js ''id'')) (Str uuid)) # history st"
  using import_importable[OF assms(1), of uuid l st] assms(2)
  by (auto simp: add_if_new_def field_set_prop)

lemma import_duplicate_noop:
  assumes "importable B now (Inr (Obj kvs))"
    and "has_id (history st) (js_or (field kvs (js ''id'')) (Str uuid))"
  shows "history (handleImportFile B now uuid l (Some (Inr (Obj kvs))) st) = history st"
  using import_importable[OF assms(1), of uuid l st] assms(2)
  by (auto simp: add_if_new_def field_set_prop)

lemma strict_equals_primitive: "primitive i \<Longrightarrow> strict_equals a i \<longleftrightarrow> a = i"
  by (cases a; cases i) auto

lemma has_id_primitive: "primitive i \<Longrightarrow> has_id h i \<longleftrightarrow> i \<in> set (ids h)"
  by (auto simp: has_id_def ids_def list_ex_iff strict_equals_primitive)

lemma field_newCreation_id: "field (newCreation uuid n html img now) (js ''id'') = Str uuid"
  by (simp add: newCreation_def field_def)

lemma has_id_not_primitive: "\<not> primitive i \<Longrightarrow> \<not> has_id h i"
  by (cases i) (auto simp: has_id_def list_ex_iff)

lemma import_object_id:
  assumes "importable B now (Inr (Obj kvs))" and "\<not> primitive (field kvs (js ''id''))"
  shows "\<exists>d. new_Date B (js_or (field kvs (js ''timestamp'')) (Num (of_int now))) = Inr d
     \<and> history (handleImportFile B now uuid l (Some (Inr (Obj kvs))) st) =
         set_prop (set_prop kvs (js ''timestamp'') d) (js ''id'') (field kvs (js ''id''))
         # history st"
proof -
  from assms(2) have t: "js_or (field kvs (js ''id'')) (Str uuid) = field kvs (js ''id'')"
    by (cases "field kvs (js ''id'')") (auto simp: js_or_def)
  from has_id_not_primitive[OF assms(2)] t
  have "\<not> has_id (history st) (js_or (field kvs (js ''id'')) (Str uuid))"
    by simp
  from import_new_id[OF assms(1) this, of l] t show ?thesis
    by simp
qed

lemma import_keeps_ids_distinct:
  assumes "distinct (ids (history st))"
    and "primitive (js_or (field kvs (js ''id'')) (Str uuid))"
  shows "distinct (ids (history (handleImportFile B now uuid l (Some (Inr (Obj kvs))) st)))"
proof (cases "importable B now (Inr (Obj kvs))")
  case True
  show ?thesis
  proof (cases "has_id (history st) (js_or (field kvs (js ''id'')) (Str uuid))")
    case dup: True
    from import_duplicate_noop[OF True dup, of l] assms(1) show ?thesis by simp
  next
    case new: False
    from import_new_id[OF True new, of l] obtain d where
      h: "history (handleImportFile B now uuid l (Some (Inr (Obj kvs))) st) =
         set_prop (set_prop kvs (js ''timestamp'') d) (js ''id'')
           (js_or (field kvs (js ''id'')) (Str uuid)) # history st" by blast
    from new assms(2) have "js_or (field kvs (js ''id'')) (Str uuid) \<notin> set (ids (history st))"
      by (simp add: has_id_primitive)
    with assms(1) show ?thesis
      unfolding h by (simp add: ids_def field_set_prop)
  qed
next
  case False
  from import_not_importable[OF False, of uuid l st] assms(1) show ?thesis
    by (auto simp: alert_def)
qed

lemma generate_keeps_ids_distinct:
  assumes "distinct (ids (history st))" and "Str uuid \<notin> set (ids (history st))"
  shows "distinct (ids (history (handleGenerate reader gc uuid now l p f st)))"
  using generate_history_cases[of reader gc uuid now l p f st] assms
  by (auto simp: ids_def)

text \<open>
  C5, as amended. On the import path, a Creation whose id is strictly equal to an id of
  the collection leaves the collection exactly unchanged (the entry that is there is
  kept); with an id that \<open>===\<close> compares by value (not an array or object), an
  import keeps the ids of the collection pairwise distinct. The generation path has no
  id check: a successful generation always prepends the Creation it mints, so it keeps
  the ids distinct when the freshly generated id is not yet in the collection. An
  importable document is prepended when its id is not strictly equal to an id of the
  collection, which is always so when its id is an array or an object.
\<close>

theorem C5_import_skips_known_ids:
  "(importable B now (Inr (Obj kvs))
      \<and> has_id (history st) (js_or (field kvs (js ''id'')) (Str uuid))
      \<longrightarrow> history (handleImportFile B now uuid l (Some (Inr (Obj kvs))) st) = history st)
   \<and> (distinct (ids (history st)) \<and> primitive (js_or (field kvs (js ''id'')) (Str uuid))
      \<longrightarrow> distinct (ids (history (handleImportFile B now uuid l (Some (Inr (Obj kvs))) st))))
   \<and> (encode_file reader f = Inr (b, m) \<and> bringToLife gc p b m l = Inr html \<and> html \<noteq> []
      \<longrightarrow> history (handleGenerate reader gc uuid now l p f st)
           = newCreation uuid (creationName l p f) html (originalImage b m) now # history st)
   \<and> (distinct (ids (history st)) \<and> Str uuid \<notin> set (ids (history st))
      \<longrightarrow> distinct (ids (history (handleGenerate reader gc uuid now l p f st))))
   \<and> (importable B now (Inr (Obj kvs)) \<and> \<not> primitive (field kvs (js ''id''))
      \<longrightarrow> (\<exists>d. new_Date B (js_or (field kvs (js ''timestamp'')) (Num (of_int now))) = Inr d
            \<and> history (handleImportFile B now uuid l (Some (Inr (Obj kvs))) st) =
                set_prop (set_prop kvs (js ''timestamp'') d) (js ''id'')
                  (field kvs (js ''id'')) # history st))
   \<and> (importable B now (Inr (Obj kvs))
       \<and> \<not> has_id (history st) (js_or (field kvs (js ''id'')) (Str uuid))
      \<longrightarrow> (\<exists>d. new_Date B (js_or (field kvs (js ''timestamp'')) (Num (of_int now))) = Inr d
            \<and> history (handleImportFile B now uuid l (Some (Inr (Obj kvs))) st) =
                set_prop (set_prop kvs (js ''timestamp'') d) (js ''id'')
                  (js_or (field kvs (js ''id'')) (Str uuid)) # history st))"
  using import_duplicate_noop[of B now kvs st uuid l]
    import_new_id[of B now kvs st uuid l]
    import_keeps_ids_distinct[of st kvs uuid B now l]
    generate_success[of reader f b m gc p l html uuid now st]
    generate_keeps_ids_distinct[of st uuid reader gc now l p f]
    import_object_id[of B now kvs uuid l st]
  by simp

section \<open>The order of the collection\<close>

lemma perform_inserted:
  "history (perform B l a st) =
     (case inserted B l a st of None \<Rightarrow> history st | Some c \<Rightarrow> c # history st)"
proof (cases a)
  case (Generate reader gc uuid now p f)
  show ?thesis
    unfolding Generate
    by (auto simp: handleGenerate_def handleGenerate_start_def alert_def Let_def
        split: sum.splits prod.splits)
next
  case (Import now uuid chosen)
  show ?thesis
  proof (cases chosen)
    case None
    then show ?thesis by (simp add: Import handleImportFile_def)
  next
    case (Some raw)
    show ?thesis
    proof (cases "importable B now raw")
      case False
      from import_not_importable[OF False, of uuid l st]
      have "history (handleImportFile B now uuid l (Some raw) st) = history st"
        by (auto simp: alert_def)
      moreover from False have "inserted B l (Import now uuid (Some raw)) st = None"
        by (auto split: sum.splits jsval.splits)
      ultimately show ?thesis by (simp add: Import Some)
    next
      case True
      then obtain kvs where raw: "raw = Inr (Obj kvs)"
        by (cases "(B, now, raw)" rule: importable.cases) auto
      show ?thesis
      proof (cases "has_id (history st) (js_or (field kvs (js ''id'')) (Str uuid))")
        case dup: True
        from import_duplicate_noop[OF True[unfolded raw] dup, of l] dup
        show ?thesis by (simp add: Import Some raw)
      next
        case new: False
        from import_new_id[OF True[unfolded raw] new, of l] new True
        show ?thesis by (auto simp: Import Some raw)
      qed
    qed
  qed
qed

lemma run_insertions:
  "history (run B l as st) = rev (insertions B l as st) @ history st"
proof (induction as arbitrary: st)
  case Nil
  then show ?case by simp
next
  case (Cons a as)
  show ?case
    by (simp add: Cons.IH perform_inserted split: option.splits)
qed

lemma perform_displays_inserted:
  "inserted B l a st = Some c \<Longrightarrow> activeCreation (perform B l a st) = Some c"
proof (cases a)
  case (Generate reader gc uuid now p f)
  assume "inserted B l a st = Some c"
  then show ?thesis
    unfolding Generate
    by (auto simp: handleGenerate_def handleGenerate_start_def Let_def
        split: sum.splits prod.splits if_splits)
next
  case (Import now uuid chosen)
  assume i: "inserted B l a st = Some c"
  then obtain kvs where ch: "chosen = Some (Inr (Obj kvs))"
    unfolding Import by (auto split: option.splits sum.splits jsval.splits)
  from i have imp: "importable B now (Inr (Obj kvs))"
    unfolding Import ch by (auto split: if_splits)
  from import_importable[OF imp, of uuid l st] i show ?thesis
    unfolding Import ch by (auto split: if_splits sum.splits)
qed

text \<open>
  C6, as amended. Every call inserts exactly what its inputs tell (\<open>inserted\<close>), in
  front of the history, and displays it: a successful generation prepends the Creation
  it mints, an import that is accepted and whose id is new prepends the imported
  Creation, every other call leaves the history as it is. Over any sequence of calls
  the history is therefore the insertions in reverse order of insertion, followed by
  what it held before: it is ordered from the most recently inserted to the oldest.
\<close>

theorem C6_inserts_prepend:
  "history (perform B l a st) =
     (case inserted B l a st of None \<Rightarrow> history st | Some c \<Rightarrow> c # history st)
   \<and> (inserted B l a st = Some c \<longrightarrow> activeCreation (perform B l a st) = Some c)
   \<and> history (run B l as st) = rev (insertions B l as st) @ history st
   \<and> (encode_file reader f = Inr (b, m) \<and> bringToLife gc p b m l = Inr html \<and> html \<noteq> []
      \<longrightarrow> history (handleGenerate reader gc uuid now l p f st)
           = newCreation uuid (creationName l p f) html (originalImage b m) now # history st)
   \<and> (importable B now' (Inr (Obj kvs))
       \<and> \<not> has_id (history st) (js_or (field kvs (js ''id'')) (Str uuid'))
      \<longrightarrow> (\<exists>d. new_Date B (js_or (field kvs (js ''timestamp'')) (Num (of_int now'))) = Inr d
            \<and> history (handleImportFile B now' uuid' l (Some (Inr (Obj kvs))) st) =
                set_prop (set_prop kvs (js ''timestamp'') d) (js ''id'')
                  (js_or (field kvs (js ''id'')) (Str uuid')) # history st))"
  using perform_inserted[of B l a st] perform_displays_inserted[of B l a st c]
    run_insertions[of B l as st]
    generate_success[of reader f b m gc p l html uuid now st]
    import_new_id[of B now' kvs st uuid' l]
  by simp

lemma state1_facts:
  "importable builtins0 1704067200000 (Inr (Obj chess_clock_doc))"
  "has_id (history state1) (js_or (field chess_clock_doc (js ''id'')) (Str (js ''id-2'')))"
  "distinct (ids (history state1))"
  "primitive (js_or (field chess_clock_doc (js ''id'')) (Str (js ''id-2'')))"
  "Str (js ''id-2'') \<notin> set (ids (history state1))"
  "history state1 = [chess_clock]"
  by code_simp+

lemma timer_generated:
  "encode_file (Inr None) None = Inr (None, None)"
  "bringToLife html_response (js ''a timer'') None None EN = Inr (js ''<!DOCTYPE html><p>hi</p>'')"
  "creationName EN (js ''a timer'') None = js ''a timer''"
  "originalImage None None = Undefined"
  by code_simp+

lemma array_id_facts:
  "importable builtins0 8 (Inr (Obj array_id_doc))"
  "\<not> primitive (field array_id_doc (js ''id''))"
  "\<not> has_id (history state0) (js_or (field array_id_doc (js ''id'')) (Str (js ''uuid-9'')))"
  by code_simp+

theorem C5_import_skips_known_ids_witness:
  "importable builtins0 1704067200000 (Inr (Obj chess_clock_doc))
   \<and> has_id (history state1) (js_or (field chess_clock_doc (js ''id'')) (Str (js ''id-2'')))
   \<and> history (handleImportFile builtins0 1704067200000 (js ''id-2'') EN
                (Some (Inr (Obj chess_clock_doc))) state1) = history state1
   \<and> distinct (ids (history state1))
   \<and> primitive (js_or (field chess_clock_doc (js ''id'')) (Str (js ''id-2'')))
   \<and> distinct (ids (history (handleImportFile builtins0 1704067200000 (js ''id-2'') EN
                                 (Some (Inr (Obj chess_clock_doc))) state1)))
   \<and> encode_file (Inr None) None = Inr (None, None)
   \<and> bringToLife html_response (js ''a timer'') None None EN
       = Inr (js ''<!DOCTYPE html><p>hi</p>'')
   \<and> history (handleGenerate (Inr None) html_response (js ''id-2'') 1704067200000 EN
                (js ''a timer'') None state1)
       = newCreation (js ''id-2'') (creationName EN (js ''a timer'') None)
           (js ''<!DOCTYPE html><p>hi</p>'') (originalImage None None) 1704067200000
         # history state1
   \<and> Str (js ''id-2'') \<notin> set (ids (history state1))
   \<and> distinct (ids (history (handleGenerate (Inr None) html_response (js ''id-2'') 1704067200000
                                 EN (js ''a timer'') None state1)))
   \<and> importable builtins0 8 (Inr (Obj array_id_doc))
   \<and> \<not> primitive (field array_id_doc (js ''id''))
   \<and> (\<exists>d. new_Date builtins0 (js_or (field array_id_doc (js ''timestamp'')) (Num (of_int 8)))
              = Inr d
          \<and> history (handleImportFile builtins0 8 (js ''uuid-9'') EN
                       (Some (Inr (Obj array_id_doc))) state_array)
              = set_prop (set_prop array_id_doc (js ''timestamp'') d) (js ''id'')
                  (field array_id_doc (js ''id'')) # history state_array)
   \<and> \<not> has_id (history state0) (js_or (field array_id_doc (js ''id'')) (Str (js ''uuid-9'')))
   \<and> (\<exists>d. new_Date builtins0 (js_or (field array_id_doc (js ''timestamp'')) (Num (of_int 8)))
              = Inr d
          \<and> history (handleImportFile builtins0 8 (js ''uuid-9'') EN
                       (Some (Inr (Obj array_id_doc))) state0)
              = set_prop (set_prop array_id_doc (js ''timestamp'') d) (js ''id'')
                  (js_or (field array_id_doc (js ''id'')) (Str (js ''uuid-9''))) # history state0)"
proof -
  note T = C5_import_skips_known_ids[where B = builtins0 and now = 1704067200000
      and kvs = chess_clock_doc and st = state1 and uuid = "js ''id-2''" and l = EN
      and reader = "Inr None" and f = None and b = None and m = None and gc = html_response
      and p = "js ''a timer''" and html = "js ''<!DOCTYPE html><p>hi</p>''"]
  have ne: "js ''<!DOCTYPE html><p>hi</p>'' \<noteq> []"
    by simp
  have a: "history (handleImportFile builtins0 1704067200000 (js ''id-2'') EN
                (Some (Inr (Obj chess_clock_doc))) state1) = history state1"
    using T state1_facts(1,2) by blast
  have b: "distinct (ids (history (handleImportFile builtins0 1704067200000 (js ''id-2'') EN
                                 (Some (Inr (Obj chess_clock_doc))) state1)))"
    using T state1_facts(3,4) by blast
  have c: "history (handleGenerate (Inr None) html_response (js ''id-2'') 1704067200000 EN
                (js ''a timer'') None state1)
       = newCreation (js ''id-2'') (creationName EN (js ''a timer'') None)
           (js ''<!DOCTYPE html><p>hi</p>'') (originalImage None None) 1704067200000
         # history state1"
    using T timer_generated(1,2) ne by blast
  have d: "distinct (ids (history (handleGenerate (Inr None) html_response (js ''id-2'')
                                 1704067200000 EN (js ''a timer'') None state1)))"
    using T state1_facts(3,5) by blast
  have e: "\<exists>d. new_Date builtins0 (js_or (field array_id_doc (js ''timestamp'')) (Num (of_int 8)))
              = Inr d
          \<and> history (handleImportFile builtins0 8 (js ''uuid-9'') EN
                       (Some (Inr (Obj array_id_doc))) state_array)
              = set_prop (set_prop array_id_doc (js ''timestamp'') d) (js ''id'')
                  (field array_id_doc (js ''id'')) # history state_array"
    using C5_import_skips_known_ids[where B = builtins0 and now = 8 and kvs = array_id_doc
        and st = state_array and uuid = "js ''uuid-9''" and l = EN] array_id_facts
    by blast
  have g: "\<exists>d. new_Date builtins0 (js_or (field array_id_doc (js ''timestamp'')) (Num (of_int 8)))
              = Inr d
          \<and> history (handleImportFile builtins0 8 (js ''uuid-9'') EN
                       (Some (Inr (Obj array_id_doc))) state0)
              = set_prop (set_prop array_id_doc (js ''timestamp'') d) (js ''id'')
                  (js_or (field array_id_doc (js ''id'')) (Str (js ''uuid-9''))) # history state0"
    using C5_import_skips_known_ids[where B = builtins0 and now = 8 and kvs = array_id_doc
        and st = state0 and uuid = "js ''uuid-9''" and l = EN] array_id_facts
    by blast
  show ?thesis
    by (intro conjI state1_facts(1-5) timer_generated(1,2) array_id_facts a b c d e g)
qed

lemma array_import_twice:
  "ids (history state_array) = [Arr [Num 1]]"
  "ids (history (handleImportFile builtins0 8 (js ''uuid-9'') EN
                   (Some (Inr (Obj array_id_doc))) state_array)) = [Arr [Num 1], Arr [Num 1]]"
  "field array_id_doc (js ''id'') = Arr [Num 1]"
  by code_simp+

text \<open>
  C5 as stated fails: a document whose id is an array, imported a second time, is
  inserted again, because \<open>===\<close> never holds between the two arrays; the collection
  changes and then holds the id \<open>[1]\<close> twice.
\<close>

theorem C5_counterexample:
  "field array_id_doc (js ''id'') = Arr [Num 1]
   \<and> ids (history state_array) = [Arr [Num 1]]
   \<and> ids (history (handleImportFile builtins0 8 (js ''uuid-9'') EN
                      (Some (Inr (Obj array_id_doc))) state_array)) = [Arr [Num 1], Arr [Num 1]]
   \<and> history (handleImportFile builtins0 8 (js ''uuid-9'') EN
                (Some (Inr (Obj array_id_doc))) state_array) \<noteq> history state_array"
proof -
  have "length (ids (history (handleImportFile builtins0 8 (js ''uuid-9'') EN
                   (Some (Inr (Obj array_id_doc))) state_array)))
        \<noteq> length (ids (history state_array))"
    by (simp only: array_import_twice) simp
  then have "history (handleImportFile builtins0 8 (js ''uuid-9'') EN
                (Some (Inr (Obj array_id_doc))) state_array) \<noteq> history state_array"
    by (auto simp: ids_def)
  then show ?thesis
    by (simp add: array_import_twice)
qed

lemma two_calls_run:
  "insertions builtins0 EN two_calls state0 = [timer, imported_chess_clock]"
  "history (run builtins0 EN two_calls state0) = [imported_chess_clock, timer]"
  "timestamps (history (run builtins0 EN two_calls state0))
     = [DateV (Some 0), DateV (Some 1704067200000)]"
  by code_simp+

text \<open>
  C6 as stated fails when most-recent-first is read by \<open>timestamp\<close>: after a
  generation in 2024 and the import of a document whose timestamp is in 1970, the
  entry in front is the older one.
\<close>

theorem C6_counterexample:
  "history (run builtins0 EN two_calls state0) = [imported_chess_clock, timer]
   \<and> timestamps (history (run builtins0 EN two_calls state0))
       = [DateV (Some 0), DateV (Some 1704067200000)]
   \<and> (0::int) < 1704067200000"
  by (intro conjI two_calls_run) simp

lemma timer_inserted:
  "inserted builtins0 EN (hd two_calls) state0 = Some timer"
  "encode_file (Inr None) None = Inr (None, None)"
  "bringToLife html_response (js ''a timer'') None None EN = Inr (js ''<!DOCTYPE html><p>hi</p>'')"
  "creationName EN (js ''a timer'') None = js ''a timer''"
  "originalImage None None = Undefined"
  "importable builtins0 1704067200001 (Inr (Obj chess_clock_doc))"
  "\<not> has_id (history state0) (js_or (field chess_clock_doc (js ''id'')) (Str (js ''uuid-9'')))"
  "new_Date builtins0 (js_or (field chess_clock_doc (js ''timestamp'')) (Num (of_int 1704067200001)))
     = Inr (DateV (Some 0))"
  "set_prop (set_prop chess_clock_doc (js ''timestamp'') (DateV (Some 0))) (js ''id'')
     (js_or (field chess_clock_doc (js ''id'')) (Str (js ''uuid-9''))) = imported_chess_clock"
  "history state0 = []"
  by code_simp+

theorem C6_inserts_prepend_witness:
  "inserted builtins0 EN (hd two_calls) state0 = Some timer
   \<and> history (perform builtins0 EN (hd two_calls) state0) = timer # history state0
   \<and> activeCreation (perform builtins0 EN (hd two_calls) state0) = Some timer
   \<and> history (run builtins0 EN two_calls state0)
       = rev (insertions builtins0 EN two_calls state0) @ history state0
   \<and> insertions builtins0 EN two_calls state0 = [timer, imported_chess_clock]
   \<and> encode_file (Inr None) None = Inr (None, None)
   \<and> bringToLife html_response (js ''a timer'') None None EN
       = Inr (js ''<!DOCTYPE html><p>hi</p>'')
   \<and> history (handleGenerate (Inr None) html_response (js ''id-2'') 1704067200000 EN
                (js ''a timer'') None state0)
       = newCreation (js ''id-2'') (creationName EN (js ''a timer'') None)
           (js ''<!DOCTYPE html><p>hi</p>'') (originalImage None None) 1704067200000
         # history state0
   \<and> importable builtins0 1704067200001 (Inr (Obj chess_clock_doc))
   \<and> \<not> has_id (history state0) (js_or (field chess_clock_doc (js ''id'')) (Str (js ''uuid-9'')))
   \<and> (\<exists>d. new_Date builtins0
               (js_or (field chess_clock_doc (js ''timestamp'')) (Num (of_int 1704067200001)))
              = Inr d
          \<and> history (handleImportFile builtins0 1704067200001 (js ''uuid-9'') EN
                       (Some (Inr (Obj chess_clock_doc))) state0)
              = set_prop (set_prop chess_clock_doc (js ''timestamp'') d) (js ''id'')
                  (js_or (field chess_clock_doc (js ''id'')) (Str (js ''uuid-9'')))
                # history state0)"
proof -
  note T = C6_inserts_prepend[where B = builtins0 and l = EN and a = "hd two_calls"
      and st = state0 and c = timer and as = two_calls
      and reader = "Inr None" and f = None and b = None and m = None and gc = html_response
      and p = "js ''a timer''" and html = "js ''<!DOCTYPE html><p>hi</p>''"
      and uuid = "js ''id-2''" and now = 1704067200000
      and now' = 1704067200001 and kvs = chess_clock_doc and uuid' = "js ''uuid-9''"]
  have ne: "js ''<!DOCTYPE html><p>hi</p>'' \<noteq> []"
    by simp
  have a: "history (perform builtins0 EN (hd two_calls) state0) = timer # history state0"
    using T timer_inserted(1) by simp
  have b: "activeCreation (perform builtins0 EN (hd two_calls) state0) = Some timer"
    using T timer_inserted(1) by blast
  have c: "history (run builtins0 EN two_calls state0)
       = rev (insertions builtins0 EN two_calls state0) @ history state0"
    using T by blast
  have d: "history (handleGenerate (Inr None) html_response (js ''id-2'') 1704067200000 EN
                (js ''a timer'') None state0)
       = newCreation (js ''id-2'') (creationName EN (js ''a timer'') None)
           (js ''<!DOCTYPE html><p>hi</p>'') (originalImage None None) 1704067200000
         # history state0"
    using T timer_inserted(2,3) ne by blast
  have e: "\<exists>d. new_Date builtins0
               (js_or (field chess_clock_doc (js ''timestamp'')) (Num (of_int 1704067200001)))
              = Inr d
          \<and> history (handleImportFile builtins0 1704067200001 (js ''uuid-9'') EN
                       (Some (Inr (Obj chess_clock_doc))) state0)
              = set_prop (set_prop chess_clock_doc (js ''timestamp'') d) (js ''id'')
                  (js_or (field chess_clock_doc (js ''id'')) (Str (js ''uuid-9'')))
                # history state0"
    using T timer_inserted(6,7) by blast
  show ?thesis
    by (intro conjI timer_inserted(1,2,3,6,7) two_calls_run(1) a b c d e)
qed

section \<open>Export followed by import\<close>
















section \<open>Loading the history\<close>

lemma loadedHistory_Arr:
  "all_or_error (map (revive B) items) = Inr cs \<Longrightarrow> loadedHistory B (Some (Inr (Arr items))) = cs"
  by (simp add: loadedHistory_def)

lemma initHistory_requests:
  "loadedHistory B saved = [] \<Longrightarrow> snd (initHistory B N saved st) = exampleUrls"
  by (simp add: initHistory_def Let_def split: sum.splits)

text \<open>
  C3, as amended. On load, when the stored item exists, parses to an array and its
  entries are revived to a collection that is not empty, the store uses that collection
  and requests no example; when the collection is empty, the example URLs are
  requested.
\<close>

theorem C3_nonempty_persisted_history_wins:
  assumes "saved = Some (Inr (Arr items))"
    and "all_or_error (map (revive B) items) = Inr cs"
  shows "(cs \<noteq> [] \<longrightarrow> initHistory B N saved st = (st\<lparr>history := cs\<rparr>, []))
       \<and> (cs = [] \<longrightarrow> snd (initHistory B N saved st) = exampleUrls)"
  using loadedHistory_Arr[OF assms(2)] assms(1)
  by (simp add: initHistory_def Let_def split: sum.splits)

lemma revive_example: "revive builtins0 (example_doc (js ''a'')) = Inr (example_creation (js ''a''))"
  by code_simp

theorem C3_nonempty_persisted_history_wins_witness:
  "all_or_error (map (revive builtins0) [example_doc (js ''a'')]) = Inr [example_creation (js ''a'')]
   \<and> initHistory builtins0 network_ok (Some (Inr (Arr [example_doc (js ''a'')]))) state0
       = (state0\<lparr>history := [example_creation (js ''a'')]\<rparr>, [])
   \<and> all_or_error (map (revive builtins0) []) = Inr []
   \<and> snd (initHistory builtins0 network_ok (Some (Inr (Arr []))) state0) = exampleUrls"
proof -
  have a: "all_or_error (map (revive builtins0) [example_doc (js ''a'')]) = Inr [example_creation (js ''a'')]"
    by (simp add: revive_example)
  have b: "all_or_error (map (revive builtins0) []) = Inr []"
    by simp
  show ?thesis
    using C3_nonempty_persisted_history_wins[OF refl a, of network_ok state0]
      C3_nonempty_persisted_history_wins[OF refl b, of network_ok state0]
    by (simp add: revive_example)
qed

lemma seeded_from_empty_array:
  "initHistory builtins0 network_ok (Some (Inr (Arr []))) state0 =
     (state0\<lparr>history := map example_creation exampleUrls\<rparr>, exampleUrls)"
  by code_simp

text \<open>
  C3 as stated fails: a stored item that parses to the empty array is not used; the
  three examples are requested and become the history.
\<close>

theorem C3_counterexample:
  "loadedHistory builtins0 (Some (Inr (Arr []))) = []
   \<and> snd (initHistory builtins0 network_ok (Some (Inr (Arr []))) state0) = exampleUrls
   \<and> exampleUrls \<noteq> []
   \<and> history (fst (initHistory builtins0 network_ok (Some (Inr (Arr []))) state0))
       = map example_creation exampleUrls"
  by (simp add: seeded_from_empty_array loadedHistory_def exampleUrls_def)

lemma seeding_first_rejects: "initHistory builtins0 network_first_rejects None state0 = (state0, exampleUrls)"
  by code_simp

lemma seeding_first_not_ok: "initHistory builtins0 network_first_not_ok None state0 = (state0\<lparr>history := map example_creation (tl exampleUrls)\<rparr>, exampleUrls)"
  by code_simp

text \<open>
  C4 (evaluation of the code where the claim fails). When the request for the first
  example is rejected and the other two succeed, \<open>setHistory\<close> is never called and
  the history stays empty: no example is seeded. When the first response is merely not
  \<open>ok\<close>, only that example is left out.
\<close>

theorem C4_rejected_fetch_aborts_seeding:
  "fetch network_first_rejects (hd exampleUrls) = Inl TransportError
   \<and> initHistory builtins0 network_first_rejects None state0 = (state0, exampleUrls)
   \<and> history (fst (initHistory builtins0 network_first_rejects None state0)) = []
   \<and> history (fst (initHistory builtins0 network_first_not_ok None state0))
       = map example_creation (tl exampleUrls)"
  by (simp add: seeding_first_rejects seeding_first_not_ok) (simp add: network_first_rejects_def exampleUrls_def state0_def)

end
